theory Spec2Isabelle
  imports Complex_Main "HOL-Library.Sublist"
begin

section \<open>Conventions of the embedding\<close>

text \<open>
  The Python sources are embedded shallowly.  A Python \<open>str\<close> is a \<^typ>\<open>string\<close>
  (a list of 8-bit characters), so the development speaks about ASCII URLs; \<open>len\<close> is
  \<^const>\<open>length\<close>.  A Python \<open>float\<close> is a \<^typ>\<open>real\<close>: comparisons against the
  literals \<open>0.3\<close>, \<open>0.5\<close>, \<open>0.7\<close> and the additions of the rule increments are
  the exact ones, rounding of the binary representation is not modelled.  An exception is a value
  of type \<open>error\<close>, and a function that can raise returns \<open>error + 'a\<close>.
\<close>

datatype error = ValueError string | Exception string

fun str_of_error :: "error \<Rightarrow> string" where
  "str_of_error (ValueError m) = m"
| "str_of_error (Exception m) = m"

section \<open>Python string operations\<close>

text \<open>\<open>str.lower\<close> on ASCII: the letters \<open>A\<close> to \<open>Z\<close> (codes 65 to 90) move up by 32.\<close>

definition lower_char :: "char \<Rightarrow> char" where
  "lower_char c =
     (let n = (of_char c :: nat) in if 65 \<le> n \<and> n \<le> 90 then char_of (n + 32) else c)"

definition lower :: "string \<Rightarrow> string" where
  "lower s = map lower_char s"

text \<open>\<open>k in s\<close> on strings: \<open>k\<close> starts at some position of \<open>s\<close>.\<close>

fun py_in :: "string \<Rightarrow> string \<Rightarrow> bool" where
  "py_in k [] = (k = [])"
| "py_in k (c # cs) = (prefix k (c # cs) \<or> py_in k cs)"

text \<open>\<open>s.startswith(p)\<close>, \<open>s.endswith(p)\<close> and \<open>s.count(c)\<close> for a one-character \<open>c\<close>.\<close>

definition startswith :: "string \<Rightarrow> string \<Rightarrow> bool" where
  "startswith s p = prefix p s"

definition endswith :: "string \<Rightarrow> string \<Rightarrow> bool" where
  "endswith s p = suffix p s"

definition count_char :: "string \<Rightarrow> char \<Rightarrow> nat" where
  "count_char s c = length (filter (\<lambda>x. x = c) s)"

text \<open>\<open>c.isdigit()\<close>, \<open>c.isalpha()\<close> and \<open>c.isalnum()\<close> on ASCII characters.\<close>

definition isdigit :: "char \<Rightarrow> bool" where
  "isdigit c = (let n = (of_char c :: nat) in 48 \<le> n \<and> n \<le> 57)"

definition isalpha :: "char \<Rightarrow> bool" where
  "isalpha c = (let n = (of_char c :: nat) in (65 \<le> n \<and> n \<le> 90) \<or> (97 \<le> n \<and> n \<le> 122))"

definition isalnum :: "char \<Rightarrow> bool" where
  "isalnum c = (isalpha c \<or> isdigit c)"

section \<open>Decision layer: \<open>backend/app/predictor.py\<close>\<close>

subsection \<open>\<open>PhishingPredictor._get_risk_level\<close>\<close>

definition get_risk_level :: "real \<Rightarrow> string" where
  "get_risk_level probability =
     (if probability < 0.3 then ''low''
      else if probability < 0.7 then ''medium''
      else ''high'')"

section \<open>Feature extraction: \<open>backend/app/advanced_feature_extractor.py\<close>\<close>

definition suspicious_keywords :: "string list" where
  "suspicious_keywords =
     [''login'', ''signin'', ''verify'', ''secure'', ''account'', ''update'',
      ''banking'', ''confirm'', ''suspended'', ''locked'', ''unusual'',
      ''activity'', ''alert'', ''security'', ''notification'', ''password'',
      ''credential'', ''validate'', ''authenticate'', ''billing'']"

text \<open>
  Feature 7 of \<open>_extract_lexical_features\<close>:
  \<open>sum(1 for keyword in self.suspicious_keywords if keyword in url_lower)\<close>.
\<close>

definition suspicious_keyword_count :: "string \<Rightarrow> nat" where
  "suspicious_keyword_count url =
     (let url_lower = lower url
      in sum_list (map (\<lambda>keyword. 1)
           (filter (\<lambda>keyword. py_in keyword url_lower) suspicious_keywords)))"

text \<open>
  The specification's reading of the same feature: a keyword occurs case-insensitively in the
  URL when some contiguous segment of the URL lowers to it.
\<close>

definition occurs_ci :: "string \<Rightarrow> string \<Rightarrow> bool" where
  "occurs_ci keyword url = (\<exists>ps w ss. url = ps @ w @ ss \<and> lower w = keyword)"

subsection \<open>\<open>collections.Counter\<close>\<close>

text \<open>
  A \<open>Counter\<close> is a dictionary that keeps its keys in the order of first insertion; it is
  an association list here.  \<open>Counter(text)\<close> adds the characters from left to right.
\<close>

fun counter_add :: "'a \<Rightarrow> ('a \<times> nat) list \<Rightarrow> ('a \<times> nat) list" where
  "counter_add c [] = [(c, 1)]"
| "counter_add c ((k, n) # kvs) =
     (if k = c then (k, n + 1) # kvs else (k, n) # counter_add c kvs)"

definition Counter :: "'a list \<Rightarrow> ('a \<times> nat) list" where
  "Counter str = foldl (\<lambda>m c. counter_add c m) [] str"

subsection \<open>\<open>AdvancedFeatureExtractor._calculate_shannon_entropy\<close>\<close>

text \<open>
  The loop \<open>for count in counter.values()\<close> is a left fold over the counts, with the
  running \<open>entropy\<close> as accumulator; \<open>math.log2\<close> is \<open>log 2\<close> on the reals.
\<close>

definition calculate_shannon_entropy :: "string \<Rightarrow> real" where
  "calculate_shannon_entropy str =
     (if str = [] then 0
      else let counter = Counter str; length = length str
           in foldl (\<lambda>entropy count.
                       let probability = real count / real length
                       in if probability > 0 then entropy - probability * log 2 probability
                          else entropy)
                0 (map snd counter))"



section \<open>Reputation heuristics: \<open>ml_engine/advanced_feature_extractor.py\<close>\<close>

subsection \<open>\<open>AdvancedFeatureExtractor._estimate_domain_age\<close>\<close>




section \<open>The standard library: \<open>urllib.parse.urlparse\<close>\<close>

text \<open>
  \<open>urlparse\<close> is called by the heuristic scorer and by the domain features, and it raises
  \<open>ValueError\<close> on some strings.  The model follows \<open>urllib/parse.py\<close> and the address
  check of \<open>ipaddress.py\<close> (CPython 3.11) on ASCII strings.
\<close>

text \<open>str.split(sep) for a one-character separator.\<close>

fun split_on :: "char \<Rightarrow> string \<Rightarrow> string list" where
  "split_on sep [] = [[]]"
| "split_on sep (x # xs) =
     (if x = sep then [] # split_on sep xs
      else (case split_on sep xs of w # ws \<Rightarrow> (x # w) # ws | [] \<Rightarrow> [[x]]))"

text \<open>\<open>s.partition(sep)\<close> for a one-character separator: the part before the first
  separator, whether it was found, and the part after it.\<close>

definition partition_on :: "char \<Rightarrow> string \<Rightarrow> string \<times> bool \<times> string" where
  "partition_on sep s =
     (takeWhile (\<lambda>x. x \<noteq> sep) s, sep \<in> set s, drop 1 (dropWhile (\<lambda>x. x \<noteq> sep) s))"

definition ishex :: "char \<Rightarrow> bool" where
  "ishex c = (let n = (of_char c :: nat)
              in (48 \<le> n \<and> n \<le> 57) \<or> (65 \<le> n \<and> n \<le> 70) \<or> (97 \<le> n \<and> n \<le> 102))"

definition decimal_value :: "string \<Rightarrow> nat" where
  "decimal_value s = foldl (\<lambda>v c. 10 * v + (of_char c - 48)) 0 s"

text \<open>\<open>ipaddress.IPv4Address._parse_octet\<close> returns without raising.\<close>

definition parse_octet_ok :: "string \<Rightarrow> bool" where
  "parse_octet_ok octet_str =
     (octet_str \<noteq> [] \<and> list_all isdigit octet_str \<and> length octet_str \<le> 3 \<and>
      \<not> (octet_str \<noteq> ''0'' \<and> hd octet_str = CHR ''0'') \<and> decimal_value octet_str \<le> 255)"

definition ipv4_ok :: "string \<Rightarrow> bool" where
  "ipv4_ok addr_str =
     (CHR ''/'' \<notin> set addr_str \<and> addr_str \<noteq> [] \<and>
      (let octets = split_on CHR ''.'' addr_str
       in length octets = 4 \<and> list_all parse_octet_ok octets))"

definition parse_hextet_ok :: "string \<Rightarrow> bool" where
  "parse_hextet_ok hextet_str =
     (list_all ishex hextet_str \<and> length hextet_str \<le> 4 \<and> hextet_str \<noteq> [])"

text \<open>\<open>ipaddress._BaseV6._ip_int_from_string\<close> returns without raising.  An IPv4-style last
  part is replaced by two hextets; only their well-formedness matters here.\<close>

definition ipv6_int_ok :: "string \<Rightarrow> bool" where
  "ipv6_int_ok ip_str =
     (ip_str \<noteq> [] \<and>
      (let parts = split_on CHR '':'' ip_str
       in 3 \<le> length parts \<and>
          (CHR ''.'' \<in> set (last parts) \<longrightarrow> ipv4_ok (last parts)) \<and>
          (let parts = (if CHR ''.'' \<in> set (last parts) then butlast parts @ [''0'', ''0'']
                        else parts);
               n = length parts;
               skips = filter (\<lambda>i. parts ! i = []) [1 ..< n - 1]
           in n \<le> 9 \<and> length skips \<le> 1 \<and>
              (case skips of
                 skip_index # _ \<Rightarrow>
                   (let parts_hi = (if parts ! 0 = [] then skip_index - 1 else skip_index);
                        parts_lo = (if last parts = [] then n - skip_index - 2
                                    else n - skip_index - 1)
                    in (parts ! 0 = [] \<longrightarrow> parts_hi = 0) \<and>
                       (last parts = [] \<longrightarrow> parts_lo = 0) \<and>
                       parts_hi + parts_lo < 8 \<and>
                       list_all parse_hextet_ok (take parts_hi parts) \<and>
                       list_all parse_hextet_ok (drop (n - parts_lo) parts))
               | [] \<Rightarrow>
                   n = 8 \<and> parts ! 0 \<noteq> [] \<and> last parts \<noteq> [] \<and>
                   list_all parse_hextet_ok parts))))"

text \<open>\<open>ipaddress.IPv6Address(address)\<close> returns without raising.\<close>

definition ipv6_ok :: "string \<Rightarrow> bool" where
  "ipv6_ok addr_str =
     (CHR ''/'' \<notin> set addr_str \<and>
      (case partition_on CHR ''%'' addr_str of
         (addr, sep, scope_id) \<Rightarrow>
           (sep \<longrightarrow> scope_id \<noteq> [] \<and> CHR ''%'' \<notin> set scope_id) \<and> ipv6_int_ok addr))"

text \<open>\<open>urllib.parse._check_bracketed_host\<close> returns without raising: an IPvFuture literal
  \<open>v[a-fA-F0-9]+\..+\<close>, or an IPv6 address (an IPv4 address in brackets is refused).\<close>

definition check_bracketed_host_ok :: "string \<Rightarrow> bool" where
  "check_bracketed_host_ok hostname =
     (if startswith hostname ''v''
      then (let hexpart = takeWhile ishex (tl hostname);
                rest = dropWhile ishex (tl hostname)
            in hexpart \<noteq> [] \<and> startswith rest ''.'' \<and> 2 \<le> length rest)
      else \<not> ipv4_ok hostname \<and> ipv6_ok hostname)"

record ParseResult =
  scheme :: string
  netloc :: string
  path :: string
  params :: string
  query :: string
  fragment :: string

definition scheme_chars :: string where
  "scheme_chars = ''abcdefghijklmnopqrstuvwxyzABCDEFGHIJKLMNOPQRSTUVWXYZ0123456789+-.''"

definition uses_params :: "string list" where
  "uses_params = ['''', ''ftp'', ''hdl'', ''prospero'', ''http'', ''imap'',
                  ''https'', ''shttp'', ''rtsp'', ''rtsps'', ''rtspu'', ''sip'',
                  ''sips'', ''mms'', ''sftp'', ''tel'']"

text \<open>\<open>_splitnetloc(url, 2)\<close>: the text after the first two characters up to the first of
  \<open>/\<close>, \<open>?\<close>, \<open>#\<close>, and the rest from that delimiter on.\<close>

definition splitnetloc :: "string \<Rightarrow> string \<times> string" where
  "splitnetloc url =
     (let body = drop 2 url
      in (takeWhile (\<lambda>c. c \<notin> set ''/?#'') body, dropWhile (\<lambda>c. c \<notin> set ''/?#'') body))"

definition splitparams :: "string \<Rightarrow> string \<times> string" where
  "splitparams url =
     (if CHR ''/'' \<in> set url
      then (let tail_rev = takeWhile (\<lambda>c. c \<noteq> CHR ''/'') (rev url);
                i0 = length url - length tail_rev - 1;
                tail = drop i0 url
            in if CHR '';'' \<in> set tail
               then (take i0 url @ takeWhile (\<lambda>c. c \<noteq> CHR '';'') tail,
                     drop 1 (dropWhile (\<lambda>c. c \<noteq> CHR '';'') tail))
               else (url, ''''))
      else (takeWhile (\<lambda>c. c \<noteq> CHR '';'') url, drop 1 (dropWhile (\<lambda>c. c \<noteq> CHR '';'') url)))"

text \<open>
  \<open>urlsplit\<close>, with the default \<open>scheme\<close> and \<open>allow_fragments\<close>.  A refused bracketed host
  raises \<open>ValueError\<close> with a message that depends on the host; the model keeps one message
  for these.
\<close>

definition urlsplit :: "string \<Rightarrow> error + (string \<times> string \<times> string \<times> string \<times> string)" where
  "urlsplit url0 =
     (let url = dropWhile (\<lambda>c. (of_char c :: nat) \<le> 32) url0;
          url = filter (\<lambda>c. (of_char c :: nat) \<notin> {9, 13, 10}) url;
          pre = takeWhile (\<lambda>c. c \<noteq> CHR '':'') url;
          (sch, url) =
             (if CHR '':'' \<in> set url \<and> pre \<noteq> [] \<and> isalpha (hd url) \<and>
                 list_all (\<lambda>c. c \<in> set scheme_chars) pre
              then (lower pre, drop (length pre + 1) url)
              else ('''', url));
          (loc, url) = (if take 2 url = ''//'' then splitnetloc url else ('''', url))
      in if (CHR ''['' \<in> set loc \<and> CHR '']'' \<notin> set loc) \<or>
            (CHR '']'' \<in> set loc \<and> CHR ''['' \<notin> set loc)
         then Inl (ValueError ''Invalid IPv6 URL'')
         else if CHR ''['' \<in> set loc \<and> CHR '']'' \<in> set loc \<and>
                 \<not> check_bracketed_host_ok
                      (fst (partition_on CHR '']'' (snd (snd (partition_on CHR ''['' loc)))))
         then Inl (ValueError ''Invalid bracketed host'')
         else
           (let (url, frag) =
                  (if CHR ''#'' \<in> set url
                   then (fst (partition_on CHR ''#'' url), snd (snd (partition_on CHR ''#'' url)))
                   else (url, ''''));
                (url, qry) =
                  (if CHR ''?'' \<in> set url
                   then (fst (partition_on CHR ''?'' url), snd (snd (partition_on CHR ''?'' url)))
                   else (url, ''''))
            in Inr (sch, loc, url, qry, frag)))"

definition urlparse :: "string \<Rightarrow> error + ParseResult" where
  "urlparse url =
     (case urlsplit url of
        Inl e \<Rightarrow> Inl e
      | Inr (sch, loc, url, qry, frag) \<Rightarrow>
          (let (url, prm) =
                 (if sch \<in> set uses_params \<and> CHR '';'' \<in> set url then splitparams url
                  else (url, ''''))
           in Inr \<lparr>scheme = sch, netloc = loc, path = url, params = prm,
                    query = qry, fragment = frag\<rparr>))"

section \<open>Heuristic scorer: \<open>backend/app/predictor.py\<close>\<close>

subsection \<open>The IPv4 pattern\<close>

text \<open>
  \<open>re.search(r'\d{1,3}\.\d{1,3}\.\d{1,3}\.\d{1,3}', url)\<close>: the pattern matches at some
  position of the URL.  \<open>after_digits s\<close> lists what can remain of \<open>s\<close> once
  \<open>\d{1,3}\<close> has consumed one, two or three leading digits.
\<close>

definition after_digits :: "string \<Rightarrow> string list" where
  "after_digits s =
     map (\<lambda>n. drop n s) (filter (\<lambda>n. n \<le> length (takeWhile isdigit s)) [1, 2, 3])"

fun dotted_groups :: "nat \<Rightarrow> string \<Rightarrow> bool" where
  "dotted_groups 0 s = True"
| "dotted_groups (Suc n) s =
     (case s of
        [] \<Rightarrow> False
      | c # r \<Rightarrow> c = CHR ''.'' \<and> list_ex (dotted_groups n) (after_digits r))"

definition re_search_ipv4 :: "string \<Rightarrow> bool" where
  "re_search_ipv4 url = list_ex (\<lambda>s. list_ex (dotted_groups 3) (after_digits s)) (suffixes url)"

subsection \<open>\<open>PhishingPredictor._apply_heuristics\<close>\<close>

definition phishing_keywords :: "string list" where
  "phishing_keywords =
     [''verify'', ''account'', ''update'', ''secure'', ''login'', ''signin'',
      ''banking'', ''confirm'', ''suspended'', ''locked'', ''unusual'',
      ''activity'', ''alert'', ''security'', ''notification'']"

definition heuristic_suspicious_tlds :: "string list" where
  "heuristic_suspicious_tlds = [''.tk'', ''.ml'', ''.ga'', ''.cf'', ''.gq'', ''.xyz'', ''.top'']"

definition legitimate_domains :: "string list" where
  "legitimate_domains =
     [''google.com'', ''facebook.com'', ''amazon.com'', ''paypal.com'',
      ''microsoft.com'', ''apple.com'', ''netflix.com'', ''instagram.com'',
      ''twitter.com'', ''linkedin.com'', ''github.com'', ''bankofamerica.com'',
      ''chase.com'', ''wellsfargo.com'', ''citibank.com'']"

text \<open>
  The loop over \<open>legitimate_domains\<close>: the first brand that occurs in the lowered URL while the
  network location does not end with it adds 0.6, and \<open>break\<close> leaves the loop.
\<close>

fun impersonation_loop :: "string list \<Rightarrow> string \<Rightarrow> string \<Rightarrow> real \<Rightarrow> real" where
  "impersonation_loop [] url_lower domain score = score"
| "impersonation_loop (legit_domain # rest) url_lower domain score =
     (if py_in legit_domain url_lower \<and> \<not> endswith domain legit_domain then score + 0.6
      else impersonation_loop rest url_lower domain score)"

text \<open>
  The function raises when \<open>urlparse\<close> raises; it has no handler of its own.  The rules
  before the call to \<open>urlparse\<close> have no effect then.
\<close>

definition apply_heuristics :: "string \<Rightarrow> error + real" where
  "apply_heuristics url =
     (let score = 0.0;
          url_lower = lower url;
          keyword_count = sum_list (map (\<lambda>keyword. 1 :: nat)
                            (filter (\<lambda>keyword. py_in keyword url_lower) phishing_keywords));
          score = (if keyword_count \<ge> 3 then score + 0.4
                   else if keyword_count \<ge> 2 then score + 0.25
                   else if keyword_count \<ge> 1 then score + 0.1
                   else score);
          score = (if re_search_ipv4 url then score + 0.5 else score);
          score = (if list_ex (\<lambda>tld. endswith url_lower tld) heuristic_suspicious_tlds
                   then score + 0.3 else score);
          score = (if CHR ''@'' \<in> set url then score + 0.4 else score)
      in case urlparse url of
           Inl e \<Rightarrow> Inl e
         | Inr parsed \<Rightarrow>
             (let domain = netloc parsed;
                  score = (if count_char domain CHR ''-'' \<ge> 3 then score + 0.3
                           else if count_char domain CHR ''-'' \<ge> 2 then score + 0.2
                           else score);
                  score = impersonation_loop legitimate_domains url_lower domain score;
                  score = (if length url > 100 then score + 0.2 else score);
                  score = (if \<not> startswith url ''https://'' \<and>
                              list_ex (\<lambda>keyword. py_in keyword url_lower)
                                [''login'', ''signin'', ''account'', ''secure'']
                           then score + 0.2 else score)
              in Inr (min score 1.0)))"

subsection \<open>\<open>PhishingPredictor.predict\<close>\<close>

text \<open>
  Python values that reach the argument of \<open>predict\<close> or the result dictionary.  A \<open>dict\<close>
  literal is an association list in the order of its keys.
\<close>

datatype pyval = PStr string | PFloat real | PBool bool | PInt int | PNone

type_synonym pydict = "(string \<times> pyval) list"

text \<open>
  \<open>round(x, ndigits)\<close> rounds to the nearest multiple of \<open>10 ^ - ndigits\<close>, ties to the even
  multiple.
\<close>

definition round_half_even :: "real \<Rightarrow> int" where
  "round_half_even x =
     (let f = \<lfloor>x\<rfloor>; d = x - of_int f
      in if d < 1 / 2 then f else if d > 1 / 2 then f + 1 else if even f then f else f + 1)"

definition py_round :: "real \<Rightarrow> nat \<Rightarrow> real" where
  "py_round x ndigits = of_int (round_half_even (x * 10 ^ ndigits)) / 10 ^ ndigits"

text \<open>
  The body of the \<open>try\<close> block.  The feature extractor and the trained model are
  collaborators of the predictor: \<open>extract_features\<close> stands for
  \<open>self.feature_extractor.extract_features\<close> and \<open>model_predict\<close> for
  \<open>self.model.predict(features)[0]\<close>; either may raise.  An argument that is empty or not a
  string raises \<open>ValueError\<close>.
\<close>

definition predict_try ::
  "(string \<Rightarrow> error + 'f) \<Rightarrow> ('f \<Rightarrow> error + real) \<Rightarrow> pyval \<Rightarrow> error + pydict" where
  "predict_try extract_features model_predict url =
     (case url of
        PStr s \<Rightarrow>
          if s = [] then Inl (ValueError ''Invalid URL provided'')
          else
            (case extract_features s of
               Inl e \<Rightarrow> Inl e
             | Inr features \<Rightarrow>
                 (case model_predict features of
                    Inl e \<Rightarrow> Inl e
                  | Inr ml_probability \<Rightarrow>
                      (case apply_heuristics s of
                         Inl e \<Rightarrow> Inl e
                       | Inr heuristic_score \<Rightarrow>
                           (let probability = 0.6 * ml_probability + 0.4 * heuristic_score;
                                is_phishing = probability > 0.5;
                                prediction_label =
                                  (if is_phishing then ''phishing'' else ''legitimate'');
                                confidence =
                                  (if is_phishing then probability else 1 - probability);
                                risk_level = get_risk_level probability
                            in Inr [(''url'', url),
                                    (''prediction'', PStr prediction_label),
                                    (''confidence'', PFloat (py_round confidence 4)),
                                    (''probability'', PFloat (py_round probability 4)),
                                    (''risk_level'', PStr risk_level),
                                    (''is_safe'', PBool (\<not> is_phishing))]))))
      | _ \<Rightarrow> Inl (ValueError ''Invalid URL provided''))"

text \<open>The \<open>except Exception as e\<close> handler turns every exception of the body into a result.\<close>

definition predict ::
  "(string \<Rightarrow> error + 'f) \<Rightarrow> ('f \<Rightarrow> error + real) \<Rightarrow> pyval \<Rightarrow> pydict" where
  "predict extract_features model_predict url =
     (case predict_try extract_features model_predict url of
        Inr result \<Rightarrow> result
      | Inl e \<Rightarrow> [(''url'', url),
                 (''error'', PStr (str_of_error e)),
                 (''prediction'', PStr ''error''),
                 (''confidence'', PFloat 0.0)])"

text \<open>
  The dictionary returned for a scored request, as a function of the blended probability
  (lines 84 to 101 of \<open>predict\<close>), for use in statements about the result.
\<close>

definition success_result :: "pyval \<Rightarrow> real \<Rightarrow> pydict" where
  "success_result url p =
     [(''url'', url),
      (''prediction'', PStr (if p > 0.5 then ''phishing'' else ''legitimate'')),
      (''confidence'', PFloat (py_round (if p > 0.5 then p else 1 - p) 4)),
      (''probability'', PFloat (py_round p 4)),
      (''risk_level'', PStr (get_risk_level p)),
      (''is_safe'', PBool (\<not> p > 0.5))]"

section \<open>Feature vector: \<open>backend/app/advanced_feature_extractor.py\<close>\<close>

definition suspicious_tlds :: "string list" where
  "suspicious_tlds =
     [''.tk'', ''.ml'', ''.ga'', ''.cf'', ''.gq'', ''.xyz'', ''.top'', ''.work'',
      ''.click'', ''.link'', ''.download'', ''.racing'', ''.win'']"

definition trusted_tlds :: "string list" where
  "trusted_tlds = [''.com'', ''.org'', ''.net'', ''.edu'', ''.gov'', ''.mil'']"

definition feature_names :: "string list" where
  "feature_names =
     [''url_length'', ''num_dots'', ''num_slashes'', ''num_hyphens'', ''num_digits'',
      ''has_ip_address'', ''suspicious_keyword_count'', ''uses_https'',
      ''shannon_entropy'', ''vowel_consonant_ratio'', ''digit_letter_ratio'',
      ''special_char_ratio'', ''url_randomness_score'',
      ''domain_length'', ''num_subdomains'', ''tld_category'', ''domain_has_digits'',
      ''domain_entropy'', ''path_length'', ''query_length'']"

definition has_ip_address :: "string \<Rightarrow> bool" where
  "has_ip_address url = re_search_ipv4 url"

definition extract_lexical_features :: "string \<Rightarrow> real list" where
  "extract_lexical_features url =
     [real (length url),
      real (count_char url CHR ''.''),
      real (count_char url CHR ''/''),
      real (count_char url CHR ''-''),
      real (length (filter isdigit url)),
      (if has_ip_address url then 1 else 0),
      real (suspicious_keyword_count url),
      (if startswith url ''https://'' then 1 else 0)]"

definition vowel_consonant_ratio :: "string \<Rightarrow> real" where
  "vowel_consonant_ratio url =
     (let vowels = ''aeiouAEIOU'';
          consonants = ''bcdfghjklmnpqrstvwxyzBCDFGHJKLMNPQRSTVWXYZ'';
          vowel_count = length (filter (\<lambda>c. c \<in> set vowels) url);
          consonant_count = length (filter (\<lambda>c. c \<in> set consonants) url)
      in if consonant_count = 0 then 0.0 else real vowel_count / real consonant_count)"

definition digit_letter_ratio :: "string \<Rightarrow> real" where
  "digit_letter_ratio url =
     (let digits = length (filter isdigit url);
          letters = length (filter isalpha url)
      in if letters = 0 then 0.0 else real digits / real letters)"

definition special_char_ratio :: "string \<Rightarrow> real" where
  "special_char_ratio url =
     (let special_chars = length (filter (\<lambda>c. \<not> isalnum c) url)
      in if length url = 0 then 0.0 else real special_chars / real (length url))"

definition url_randomness_score :: "string \<Rightarrow> real" where
  "url_randomness_score url =
     (let alphanum = filter isalnum url
      in if length alphanum < 2 then 0.0
         else (let changes = length (filter (\<lambda>i. alphanum ! i \<noteq> alphanum ! (i + 1))
                                       [0 ..< length alphanum - 1])
               in real changes / real (length alphanum - 1)))"

definition extract_statistical_features :: "string \<Rightarrow> real list" where
  "extract_statistical_features url =
     [calculate_shannon_entropy url,
      vowel_consonant_ratio url,
      digit_letter_ratio url,
      special_char_ratio url,
      url_randomness_score url]"

text \<open>
  The result of \<open>tldextract.extract\<close>.  The library splits the host with the public suffix
  list, which is data outside the repository, so \<open>_extract_domain_features\<close> takes the
  library call as a parameter; it may raise.
\<close>

record ExtractResult =
  ext_subdomain :: string
  ext_domain :: string
  ext_suffix :: string

text \<open>
  \<open>_extract_domain_features\<close>: the body of the \<open>try\<close> block computes the seven features;
  the handler replaces them by \<open>[0] * 7\<close> when \<open>urlparse\<close> or \<open>tldextract.extract\<close> raised.
\<close>

definition extract_domain_features ::
  "(string \<Rightarrow> error + ExtractResult) \<Rightarrow> string \<Rightarrow> real list" where
  "extract_domain_features tldextract_extract url =
     (case (case urlparse url of
              Inl e \<Rightarrow> Inl e
            | Inr parsed \<Rightarrow>
                (case tldextract_extract url of
                   Inl e \<Rightarrow> Inl e
                 | Inr extracted \<Rightarrow>
                     (let dom = ext_domain extracted;
                          subdomain = ext_subdomain extracted;
                          num_subdomains =
                            (if subdomain \<noteq> [] then length (split_on CHR ''.'' subdomain)
                             else 0);
                          tld = ''.'' @ ext_suffix extracted;
                          tld_category =
                            (if tld \<in> set trusted_tlds then 0
                             else if list_ex (\<lambda>sus. endswith tld sus) suspicious_tlds then 2
                             else 1);
                          domain_has_digits = (if list_ex isdigit dom then 1 else 0);
                          path_length = (if path parsed \<noteq> [] then length (path parsed) else 0);
                          query_length =
                            (if query parsed \<noteq> [] then length (query parsed) else 0)
                      in Inr [real (length dom),
                              real num_subdomains,
                              tld_category,
                              domain_has_digits,
                              calculate_shannon_entropy dom,
                              real path_length,
                              real query_length]))) of
        Inr features \<Rightarrow> features
      | Inl e \<Rightarrow> replicate 7 0)"

definition extract_features ::
  "(string \<Rightarrow> error + ExtractResult) \<Rightarrow> string \<Rightarrow> real list" where
  "extract_features tldextract_extract url =
     extract_lexical_features url @ extract_statistical_features url @
     extract_domain_features tldextract_extract url"

definition extract_features_dict ::
  "(string \<Rightarrow> error + ExtractResult) \<Rightarrow> string \<Rightarrow> (string \<times> real) list" where
  "extract_features_dict tldextract_extract url =
     zip feature_names (extract_features tldextract_extract url)"

text \<open>
  What \<open>tldextract.extract\<close> answers when the URL has no host: the host it finds is the empty
  string, and so are the three parts.
\<close>

definition no_host_extract :: "string \<Rightarrow> error + ExtractResult" where
  "no_host_extract url = Inr \<lparr>ext_subdomain = '''', ext_domain = '''', ext_suffix = ''''\<rparr>"

subsection \<open>\<open>EnhancedPredictor.predict\<close> of \<open>backend/app/main.py\<close>\<close>

text \<open>
  The predictor that the service runs.  The loaded model is either a classifier with
  \<open>predict_proba\<close>, whose \<open>predict\<close> gives the class, or a booster, whose \<open>predict\<close> gives
  the probability of the legitimate class.  The optional scaler is \<open>scale\<close> (the identity
  when none is loaded), \<open>now\<close> is \<open>datetime.now().isoformat()\<close>.
\<close>

datatype 'v classifier =
  Sklearn "'v \<Rightarrow> error + int" "'v \<Rightarrow> error + real"
| Booster "'v \<Rightarrow> error + real"

definition enhanced_predict_try ::
  "(string \<Rightarrow> error + ExtractResult) \<Rightarrow> (real list \<Rightarrow> error + 'v) \<Rightarrow> 'v classifier \<Rightarrow>
   string \<Rightarrow> string \<Rightarrow> error + pydict" where
  "enhanced_predict_try tldextract_extract scale model now url =
     (let features = extract_features tldextract_extract url
      in case scale features of
           Inl e \<Rightarrow> Inl e
         | Inr features \<Rightarrow>
             (case (case model of
                      Sklearn model_predict predict_proba \<Rightarrow>
                        (case model_predict features of
                           Inl e \<Rightarrow> Inl e
                         | Inr prediction \<Rightarrow>
                             (case predict_proba features of
                                Inl e \<Rightarrow> Inl e
                              | Inr probability \<Rightarrow> Inr (prediction, probability)))
                    | Booster model_predict \<Rightarrow>
                        (case model_predict features of
                           Inl e \<Rightarrow> Inl e
                         | Inr raw_score \<Rightarrow>
                             (let probability = 1.0 - raw_score;
                                  prediction = (if probability \<ge> 0.5 then 1 else 0)
                              in Inr (prediction, probability)))) of
                Inl e \<Rightarrow> Inl e
              | Inr (prediction, probability) \<Rightarrow>
                  (let is_phishing = (prediction = 1);
                       prediction_label = (if is_phishing then ''phishing'' else ''legitimate'');
                       confidence = (if is_phishing then probability else 1 - probability);
                       risk_level = (if probability < 0.3 then ''low''
                                     else if probability < 0.7 then ''medium''
                                     else ''high'')
                   in Inr [(''url'', PStr url),
                           (''prediction'', PStr prediction_label),
                           (''confidence'', PFloat (py_round confidence 4)),
                           (''probability'', PFloat (py_round probability 4)),
                           (''risk_level'', PStr risk_level),
                           (''is_safe'', PBool (\<not> is_phishing)),
                           (''timestamp'', PStr now)])))"

definition enhanced_predict ::
  "(string \<Rightarrow> error + ExtractResult) \<Rightarrow> (real list \<Rightarrow> error + 'v) \<Rightarrow> 'v classifier \<Rightarrow>
   string \<Rightarrow> string \<Rightarrow> pydict" where
  "enhanced_predict tldextract_extract scale model now url =
     (case enhanced_predict_try tldextract_extract scale model now url of
        Inr result \<Rightarrow> result
      | Inl e \<Rightarrow> [(''url'', PStr url),
                 (''prediction'', PStr ''error''),
                 (''confidence'', PFloat 0.0),
                 (''probability'', PFloat 0.0),
                 (''risk_level'', PStr ''unknown''),
                 (''is_safe'', PBool False),
                 (''error'', PStr (str_of_error e)),
                 (''timestamp'', PStr now)])"

subsection \<open>The rules of the scorer, as the specification lists them\<close>


text \<open>The rule increments in the words of the specification.\<close>

definition keyword_increment :: "string \<Rightarrow> real" where
  "keyword_increment url =
     (let n = card {k \<in> set phishing_keywords. occurs_ci k url}
      in if 3 \<le> n then 0.4 else if 2 \<le> n then 0.25 else if 1 \<le> n then 0.1 else 0)"

definition ip_increment :: "string \<Rightarrow> real" where
  "ip_increment url = (if re_search_ipv4 url then 0.5 else 0)"

definition tld_increment :: "string \<Rightarrow> real" where
  "tld_increment url =
     (if \<exists>tld\<in>set heuristic_suspicious_tlds. suffix tld (lower url) then 0.3 else 0)"

definition at_increment :: "string \<Rightarrow> real" where
  "at_increment url = (if CHR ''@'' \<in> set url then 0.4 else 0)"

definition hyphen_increment :: "string \<Rightarrow> real" where
  "hyphen_increment loc =
     (if 3 \<le> count_char loc CHR ''-'' then 0.3
      else if 2 \<le> count_char loc CHR ''-'' then 0.2 else 0)"

definition impersonation_increment :: "string \<Rightarrow> string \<Rightarrow> real" where
  "impersonation_increment url loc =
     (if \<exists>brand\<in>set legitimate_domains. occurs_ci brand url \<and> \<not> suffix brand loc
      then 0.6 else 0)"

definition length_increment :: "string \<Rightarrow> real" where
  "length_increment url = (if 100 < length url then 0.2 else 0)"

definition no_https_login_increment :: "string \<Rightarrow> real" where
  "no_https_login_increment url =
     (if \<not> prefix ''https://'' url \<and>
         (\<exists>k\<in>set [''login'', ''signin'', ''account'', ''secure'']. occurs_ci k url)
      then 0.2 else 0)"

definition heuristic_rule_sum :: "string \<Rightarrow> string \<Rightarrow> real" where
  "heuristic_rule_sum url loc =
     keyword_increment url + ip_increment url + tld_increment url + at_increment url +
     hyphen_increment loc + impersonation_increment url loc + length_increment url +
     no_https_login_increment url"

section \<open>Facts about the string operations\<close>

lemma py_in_sublist: "py_in k s = sublist k s"
  by (induction s) (auto simp: sublist_Cons_right)

lemma sublist_map_iff: "sublist k (map f xs) \<longleftrightarrow> (\<exists>ps w ss. xs = ps @ w @ ss \<and> map f w = k)"
proof
  assume "sublist k (map f xs)"
  then obtain a b where "map f xs = a @ (k @ b)"
    by (auto simp: sublist_def)
  then obtain ps r where r: "xs = ps @ r" "map f r = k @ b"
    by (metis map_eq_append_conv)
  from r(2) obtain w ss where "r = w @ ss" "map f w = k"
    by (metis map_eq_append_conv)
  with r show "\<exists>ps w ss. xs = ps @ w @ ss \<and> map f w = k"
    by blast
next
  assume "\<exists>ps w ss. xs = ps @ w @ ss \<and> map f w = k"
  then obtain ps w ss where "xs = ps @ w @ ss" "map f w = k"
    by blast
  then have "map f xs = map f ps @ k @ map f ss"
    by simp
  then show "sublist k (map f xs)"
    unfolding sublist_def by blast
qed

lemma sum_list_ones: "sum_list (map (\<lambda>x. Suc 0) xs) = length xs"
  by (induction xs) simp_all

lemma py_in_lower_occurs: "py_in k (lower url) = occurs_ci k url"
  by (simp add: py_in_sublist lower_def occurs_ci_def sublist_map_iff)

lemma distinct_suspicious_keywords: "distinct suspicious_keywords"
  by (simp add: suspicious_keywords_def)

lemma length_suspicious_keywords: "length suspicious_keywords = 20"
  by (simp add: suspicious_keywords_def)

section \<open>Suspicious keywords\<close>

text \<open>
  Claim C8.  The keyword feature is the number of keywords of the fixed list of 20 that occur
  case-insensitively as a substring of the URL; a keyword that repeats is counted once, since
  the count is the cardinality of a set of keywords.  For
  \<open>http://secure-login-verify.com\<close> it is 3.
\<close>

theorem keyword_count_distinct_occurrences:
  "suspicious_keyword_count url = card {k \<in> set suspicious_keywords. occurs_ci k url} \<and>
   length suspicious_keywords = 20 \<and>
   suspicious_keyword_count ''http://secure-login-verify.com'' = 3"
proof -
  have "suspicious_keyword_count url
          = length (filter (\<lambda>k. occurs_ci k url) suspicious_keywords)"
    by (simp add: suspicious_keyword_count_def py_in_lower_occurs sum_list_ones)
  also have "\<dots> = card {k \<in> set suspicious_keywords. occurs_ci k url}"
    using distinct_suspicious_keywords
    by (simp add: distinct_length_filter Int_def conj_commute)
  finally have "suspicious_keyword_count url = card {k \<in> set suspicious_keywords. occurs_ci k url}" .
  moreover have "suspicious_keyword_count ''http://secure-login-verify.com'' = 3"
    by code_simp
  ultimately show ?thesis
    by (simp add: length_suspicious_keywords)
qed


section \<open>Shannon entropy\<close>

























section \<open>Domain-age indicator\<close>








section \<open>Risk tiers\<close>

lemma risk_level_low_iff: "get_risk_level p = ''low'' \<longleftrightarrow> p < 0.3"
  by (simp add: get_risk_level_def)

lemma risk_level_medium_iff: "get_risk_level p = ''medium'' \<longleftrightarrow> 0.3 \<le> p \<and> p < 0.7"
  by (simp add: get_risk_level_def)

lemma risk_level_high_iff: "get_risk_level p = ''high'' \<longleftrightarrow> 0.7 \<le> p"
  by (simp add: get_risk_level_def)

text \<open>
  Claim C7.  For every probability \<open>p\<close> the tier is \<open>low\<close> exactly when \<open>p < 0.3\<close>,
  \<open>medium\<close> exactly when \<open>0.3 \<le> p < 0.7\<close> and \<open>high\<close> exactly when \<open>p \<ge> 0.7\<close>;
  the four boundary probes 0.29, 0.3, 0.69 and 0.7 fall in low, medium, medium and high.
\<close>

theorem risk_tiering:
  "(get_risk_level p = ''low'') = (p < 0.3) \<and>
   (get_risk_level p = ''medium'') = (0.3 \<le> p \<and> p < 0.7) \<and>
   (get_risk_level p = ''high'') = (0.7 \<le> p) \<and>
   get_risk_level 0.29 = ''low'' \<and> get_risk_level 0.3 = ''medium'' \<and>
   get_risk_level 0.69 = ''medium'' \<and> get_risk_level 0.7 = ''high''"
  by (simp add: get_risk_level_def)

section \<open>The heuristic scorer is a clamped sum of increments\<close>

lemma impersonation_loop_closed:
  "impersonation_loop brands ul loc s =
     (if \<exists>brand\<in>set brands. sublist brand ul \<and> \<not> suffix brand loc then s + 0.6 else s)"
  by (induction brands) (auto simp: py_in_sublist endswith_def)

lemma distinct_phishing_keywords: "distinct phishing_keywords"
  by (simp add: phishing_keywords_def)

lemma phishing_keyword_count:
  "sum_list (map (\<lambda>keyword. 1 :: nat) (filter (\<lambda>keyword. py_in keyword (lower url)) phishing_keywords))
     = card {k \<in> set phishing_keywords. occurs_ci k url}"
proof -
  have "sum_list (map (\<lambda>keyword. 1 :: nat) (filter (\<lambda>keyword. py_in keyword (lower url)) phishing_keywords))
          = length (filter (\<lambda>k. occurs_ci k url) phishing_keywords)"
    by (simp add: py_in_lower_occurs sum_list_ones)
  also have "\<dots> = card {k \<in> set phishing_keywords. occurs_ci k url}"
    using distinct_phishing_keywords
    by (simp add: distinct_length_filter Int_def conj_commute)
  finally show ?thesis .
qed

lemma apply_heuristics_sum:
  "apply_heuristics url =
     (case urlparse url of
        Inl e \<Rightarrow> Inl e
      | Inr parsed \<Rightarrow> Inr (min (heuristic_rule_sum url (netloc parsed)) 1))"
proof (cases "urlparse url")
  case (Inl e)
  then show ?thesis
    by (simp add: apply_heuristics_def Let_def)
next
  case (Inr parsed)
  have imp: "impersonation_loop legitimate_domains (lower url) (netloc parsed) s
               = s + impersonation_increment url (netloc parsed)" for s
    by (simp add: impersonation_loop_closed impersonation_increment_def py_in_lower_occurs
        flip: py_in_sublist)
  have login: "list_ex (\<lambda>keyword. py_in keyword (lower url)) [''login'', ''signin'', ''account'', ''secure'']
                 \<longleftrightarrow> (\<exists>k\<in>set [''login'', ''signin'', ''account'', ''secure'']. occurs_ci k url)"
    unfolding list_ex_iff py_in_lower_occurs ..
  have tld: "list_ex (\<lambda>tld. endswith (lower url) tld) heuristic_suspicious_tlds
               \<longleftrightarrow> (\<exists>tld\<in>set heuristic_suspicious_tlds. suffix tld (lower url))"
    unfolding list_ex_iff endswith_def ..
  have add_if: "(if c then s + a else s) = s + (if c then a else 0)" for c and s a :: real
    by simp
  have add_if_both: "(if c then s + a else s + b) = s + (if c then a else b)" for c and s a b :: real
    by simp
  show ?thesis
    unfolding apply_heuristics_def Let_def phishing_keyword_count imp login tld Inr
      heuristic_rule_sum_def keyword_increment_def ip_increment_def tld_increment_def
      at_increment_def hyphen_increment_def length_increment_def
      no_https_login_increment_def startswith_def add_if add_if_both
    by (simp split del: if_split add: imp ac_simps)
qed

lemma keyword_increment_nonneg: "0 \<le> keyword_increment url"
  by (simp add: keyword_increment_def Let_def)

lemma ip_increment_nonneg: "0 \<le> ip_increment url"
  by (simp add: ip_increment_def)

lemma tld_increment_nonneg: "0 \<le> tld_increment url"
  by (simp add: tld_increment_def)

lemma at_increment_nonneg: "0 \<le> at_increment url"
  by (simp add: at_increment_def)

lemma hyphen_increment_nonneg: "0 \<le> hyphen_increment loc"
  by (simp add: hyphen_increment_def)

lemma impersonation_increment_nonneg: "0 \<le> impersonation_increment url loc"
  by (simp add: impersonation_increment_def)

lemma length_increment_nonneg: "0 \<le> length_increment url"
  by (simp add: length_increment_def)

lemma no_https_login_increment_nonneg: "0 \<le> no_https_login_increment url"
  by (simp add: no_https_login_increment_def)

lemma heuristic_rule_sum_nonneg: "0 \<le> heuristic_rule_sum url loc"
  unfolding heuristic_rule_sum_def
  by (intro add_nonneg_nonneg keyword_increment_nonneg ip_increment_nonneg tld_increment_nonneg
      at_increment_nonneg hyphen_increment_nonneg impersonation_increment_nonneg
      length_increment_nonneg no_https_login_increment_nonneg)

lemma apply_heuristics_range:
  assumes "apply_heuristics url = Inr v"
  shows "0 \<le> v \<and> v \<le> 1"
proof -
  from assms have "\<exists>loc. v = min (heuristic_rule_sum url loc) 1"
    by (auto simp: apply_heuristics_sum split: sum.splits)
  then obtain loc where "v = min (heuristic_rule_sum url loc) 1" ..
  then show ?thesis
    using heuristic_rule_sum_nonneg [of url loc] by simp
qed

lemma apply_heuristics_raises_iff: "isl (apply_heuristics url) \<longleftrightarrow> isl (urlparse url)"
  by (simp add: apply_heuristics_sum split: sum.splits)

lemma urlparse_unbalanced: "urlparse ''http://['' = Inl (ValueError ''Invalid IPv6 URL'')"
  by code_simp

lemma urlparse_ip_url: "urlparse ''http://1.2.3.4/'' =
   Inr \<lparr>scheme = ''http'', netloc = ''1.2.3.4'', path = ''/'', params = '''', query = '''', fragment = ''''\<rparr>"
  by code_simp

lemma apply_heuristics_ip_url: "apply_heuristics ''http://1.2.3.4/'' = Inr 0.5"
  by code_simp








lemma impersonation_scenario:
  "apply_heuristics ''http://paypal.com.google.com.fake.com/paypal.com'' = Inr 0.6"
  by code_simp


text \<open>
  Claim C6.  The scorer returns the clamped sum of its non-negative increments, a value in
  \<open>[0, 1]\<close>, whenever \<open>urlparse\<close> returns (lemmas \<open>apply_heuristics_sum\<close> and
  \<open>apply_heuristics_range\<close>); it returns no value on a URL that \<open>urlparse\<close> rejects, such as
  \<open>http://[\<close>, where the \<open>ValueError\<close> of the library leaves the function.
\<close>

theorem heuristics_raise_on_unbalanced_bracket:
  "apply_heuristics ''http://['' = Inl (ValueError ''Invalid IPv6 URL'')"
  by (simp add: apply_heuristics_sum urlparse_unbalanced)

section \<open>The decision layer of \<open>predict\<close>\<close>

lemma py_round_half: "py_round (1 / 2) 4 = 1 / 2"
  by (simp add: py_round_def round_half_even_def)

lemma py_round_ge_half:
  assumes "1 / 2 \<le> x"
  shows "1 / 2 \<le> py_round x 4"
proof -
  from assms have "(5000 :: real) \<le> x * 10 ^ 4"
    by simp
  then have "(5000 :: int) \<le> \<lfloor>x * 10 ^ 4\<rfloor>"
    by (simp add: le_floor_iff)
  moreover have "\<lfloor>y\<rfloor> \<le> round_half_even y" for y
    by (simp add: round_half_even_def Let_def)
  ultimately have "(5000 :: int) \<le> round_half_even (x * 10 ^ 4)"
    by (rule order_trans)
  then have "(5000 :: real) \<le> of_int (round_half_even (x * 10 ^ 4))"
    by linarith
  then show ?thesis
    by (simp add: py_round_def field_simps)
qed

lemma predict_try_success:
  assumes "predict_try ex md url = Inr result"
  shows "\<exists>s features ml h. url = PStr s \<and> s \<noteq> [] \<and> ex s = Inr features \<and>
           md features = Inr ml \<and> apply_heuristics s = Inr h \<and>
           result = success_result url (0.6 * ml + 0.4 * h)"
  using assms
  by (auto simp: predict_try_def success_result_def Let_def split: pyval.splits if_splits sum.splits)

lemma predict_error_result:
  assumes "predict_try ex md url = Inl e"
  shows "predict ex md url =
           [(''url'', url), (''error'', PStr (str_of_error e)),
            (''prediction'', PStr ''error''), (''confidence'', PFloat 0)]"
  using assms by (simp add: predict_def)

text \<open>
  The two predictors side by side: the booster branch of \<open>EnhancedPredictor.predict\<close> labels
  with \<open>probability \<ge> 0.5\<close>, and its error result carries every key of a successful
  result, while the error result of \<open>PhishingPredictor.predict\<close> lacks three of them.
\<close>

lemma enhanced_booster_threshold:
  assumes "scale (extract_features tx url) = Inr v" and "booster v = Inr raw_score"
  shows "map_of (enhanced_predict tx scale (Booster booster) now url) ''prediction''
           = Some (PStr (if 1 - raw_score \<ge> 0.5 then ''phishing'' else ''legitimate''))"
  using assms by (simp add: enhanced_predict_def enhanced_predict_try_def Let_def)

lemma enhanced_error_fields:
  assumes "enhanced_predict_try tx scale model now url = Inl e"
  shows "set (map fst (success_result u p)) \<subseteq> set (map fst (enhanced_predict tx scale model now url))"
  using assms by (simp add: enhanced_predict_def success_result_def)

lemma predict_error_fields_missing:
  assumes "predict_try ex md url = Inl e"
  shows "set (map fst (success_result u p)) - set (map fst (predict ex md url))
           = {''probability'', ''risk_level'', ''is_safe''}"
  using assms by (auto simp: predict_def success_result_def)

text \<open>
  Claim C1.  The claim puts a blended probability of exactly 0.5 on the phishing side.  The
  predictor compares with \<open>probability > 0.5\<close>: for \<open>http://1.2.3.4/\<close> the heuristic score
  is 0.5 (IP literal only), a model output of 0.5 blends to 0.5, and the result is labelled
  \<open>legitimate\<close> with \<open>is_safe\<close> true.
\<close>

theorem predict_at_threshold:
  "predict (\<lambda>u. Inr ()) (\<lambda>features. Inr 0.5) (PStr ''http://1.2.3.4/'') =
     [(''url'', PStr ''http://1.2.3.4/''),
      (''prediction'', PStr ''legitimate''),
      (''confidence'', PFloat 0.5),
      (''probability'', PFloat 0.5),
      (''risk_level'', PStr ''medium''),
      (''is_safe'', PBool True)]"
  by (simp add: predict_def predict_try_def apply_heuristics_ip_url get_risk_level_def Let_def
      py_round_half)

text \<open>
  Claim C2.  A request that cannot be scored does not raise and is labelled \<open>error\<close> with
  confidence 0.0 and a message, but the dictionary has the four keys \<open>url\<close>, \<open>error\<close>,
  \<open>prediction\<close>, \<open>confidence\<close> only: \<open>probability\<close>, \<open>risk_level\<close> and \<open>is_safe\<close>
  of a successful result are missing.  Shown on the empty URL.
\<close>

theorem predict_error_fields:
  "predict (\<lambda>u. Inr ()) (\<lambda>features. Inr 0.5) (PStr '''') =
     [(''url'', PStr ''''),
      (''error'', PStr ''Invalid URL provided''),
      (''prediction'', PStr ''error''),
      (''confidence'', PFloat 0)]"
  by (simp add: predict_def predict_try_def)

text \<open>
  Claim C10.  When the model's output lies in \<open>[0, 1]\<close>, every result of \<open>predict\<close> that is not
  an error result comes from a blended probability \<open>p = 0.6 * model + 0.4 * heuristic\<close> in
  \<open>[0, 1]\<close>; its confidence is \<open>p\<close> when \<open>p > 0.5\<close> and \<open>1 - p\<close> otherwise, rounded to four
  decimals, and is at least 0.5 before and after the rounding.
\<close>

theorem confidence_at_least_half:
  assumes model_range: "\<forall>features r. model_predict features = Inr r \<longrightarrow> 0 \<le> r \<and> r \<le> 1"
    and no_error: "map_of (predict extractor model_predict url) ''prediction''
                     \<noteq> Some (PStr ''error'')"
  shows "\<exists>s ml h p c.
           url = PStr s \<and> apply_heuristics s = Inr h \<and>
           0 \<le> ml \<and> ml \<le> 1 \<and> 0 \<le> h \<and> h \<le> 1 \<and>
           p = 0.6 * ml + 0.4 * h \<and> 0 \<le> p \<and> p \<le> 1 \<and>
           c = (if p > 0.5 then p else 1 - p) \<and> 0.5 \<le> c \<and>
           map_of (predict extractor model_predict url) ''confidence''
             = Some (PFloat (py_round c 4)) \<and>
           0.5 \<le> py_round c 4"
proof (cases "predict_try extractor model_predict url")
  case (Inl e)
  then have "map_of (predict extractor model_predict url) ''prediction'' = Some (PStr ''error'')"
    by (simp add: predict_error_result)
  with no_error show ?thesis
    by simp
next
  case (Inr result)
  from predict_try_success [OF Inr] obtain s features ml h where
    url: "url = PStr s" and md: "model_predict features = Inr ml"
    and heur: "apply_heuristics s = Inr h"
    and result: "result = success_result url (0.6 * ml + 0.4 * h)"
    by blast
  define p where "p = 0.6 * ml + 0.4 * h"
  define c where "c = (if p > 0.5 then p else 1 - p)"
  from model_range md have ml: "0 \<le> ml" "ml \<le> 1"
    by auto
  from apply_heuristics_range [OF heur] have h: "0 \<le> h" "h \<le> 1"
    by auto
  from ml h have p: "0 \<le> p" "p \<le> 1"
    by (simp_all add: p_def)
  have c: "0.5 \<le> c"
    by (simp add: c_def)
  then have rc: "0.5 \<le> py_round c 4"
    using py_round_ge_half [of c] by simp
  have conf: "map_of (predict extractor model_predict url) ''confidence''
                = Some (PFloat (py_round c 4))"
    by (simp add: predict_def Inr result success_result_def p_def c_def)
  show ?thesis
    using url heur ml h p c rc conf p_def c_def by blast
qed


theorem confidence_at_least_half_witness:
  "\<exists>c. map_of (predict (\<lambda>u. Inr ()) (\<lambda>features. Inr 0.5) (PStr ''http://1.2.3.4/'')) ''confidence''
          = Some (PFloat c) \<and> 0.5 \<le> c"
proof -
  have range: "\<forall>features r. (\<lambda>features :: unit. Inr 0.5 :: error + real) features = Inr r
                 \<longrightarrow> 0 \<le> r \<and> r \<le> 1"
    by simp
  have scored: "map_of (predict (\<lambda>u. Inr ()) (\<lambda>features. Inr 0.5) (PStr ''http://1.2.3.4/''))
                  ''prediction'' \<noteq> Some (PStr ''error'')"
    by (simp add: predict_def predict_try_def apply_heuristics_ip_url Let_def)
  from confidence_at_least_half [OF range scored] show ?thesis
    by blast
qed

section \<open>Fail-soft domain features\<close>

lemma length_extract_domain_features: "length (extract_domain_features tx url) = 7"
  by (simp add: extract_domain_features_def Let_def split: sum.splits)

lemma length_extract_features: "length (extract_features tx url) = 20"
  by (simp add: extract_features_def extract_lexical_features_def
      extract_statistical_features_def length_extract_domain_features)

lemma domain_block: "drop 13 (extract_features tx url) = extract_domain_features tx url"
  by (simp add: extract_features_def extract_lexical_features_def
      extract_statistical_features_def)

lemma domain_block_on_failure:
  "isl (urlparse url) \<or> isl (tx url) \<Longrightarrow> extract_domain_features tx url = replicate 7 0"
  by (auto simp: extract_domain_features_def isl_def split: sum.splits)

lemma urlparse_qmarks:
  "urlparse ''???'' = Inr \<lparr>scheme = '''', netloc = '''', path = '''', params = '''',
                             query = ''??'', fragment = ''''\<rparr>"
  by code_simp

lemma domain_block_qmarks:
  assumes "tx ''???'' = Inr r"
  shows "extract_domain_features tx ''???'' ! 6 = 2"
  using assms by (simp add: extract_domain_features_def urlparse_qmarks Let_def)

text \<open>
  Claim C3, as stated, at its own example.  \<open>???\<close> parses without an exception: \<open>urlparse\<close>
  reads it as an empty path with the query \<open>??\<close>, and the host is empty.  The domain block is
  then computed and not replaced: \<open>tld_category\<close> is 1 (the suffix \<open>.\<close> is neither trusted nor
  suspicious) and \<open>query_length\<close> is 2.
\<close>

theorem fail_soft_example_not_zeroed:
  "drop 13 (extract_features no_host_extract ''???'') = [0, 0, 1, 0, 0, 0, 2]"
  by (simp add: domain_block extract_domain_features_def urlparse_qmarks no_host_extract_def
      Let_def trusted_tlds_def suspicious_tlds_def endswith_def suffix_to_prefix
      calculate_shannon_entropy_def)

text \<open>
  Claim C3, amended.  The vector always has 20 entries, and whenever \<open>urlparse\<close> or
  \<open>tldextract.extract\<close> raises, the seven entries of the domain block (\<open>domain_length\<close>,
  \<open>num_subdomains\<close>, \<open>tld_category\<close>, \<open>domain_has_digits\<close>, \<open>domain_entropy\<close>,
  \<open>path_length\<close>, \<open>query_length\<close>) are zero.
\<close>

theorem parse_failure_zero_block:
  "length (extract_features tx url) = 20 \<and>
   length feature_names = 20 \<and>
   drop 13 feature_names =
     [''domain_length'', ''num_subdomains'', ''tld_category'', ''domain_has_digits'',
      ''domain_entropy'', ''path_length'', ''query_length''] \<and>
   (isl (urlparse url) \<or> isl (tx url) \<longrightarrow>
      drop 13 (extract_features tx url) = [0, 0, 0, 0, 0, 0, 0])"
proof -
  have names: "drop 13 feature_names =
     [''domain_length'', ''num_subdomains'', ''tld_category'', ''domain_has_digits'',
      ''domain_entropy'', ''path_length'', ''query_length'']"
    by (simp add: feature_names_def)
  have zeros: "drop 13 (extract_features tx url) = [0, 0, 0, 0, 0, 0, 0]"
    if "isl (urlparse url) \<or> isl (tx url)"
  proof -
    from that have "extract_domain_features tx url = replicate 7 0"
      by (rule domain_block_on_failure)
    also have "replicate 7 0 = [0, 0, 0, 0, 0, 0, 0 :: real]"
      by (simp add: numeral_eq_Suc)
    finally show ?thesis
      by (simp only: domain_block)
  qed
  show ?thesis
    using names zeros by (simp add: length_extract_features feature_names_def)
qed

theorem parse_failure_zero_block_witness:
  "isl (urlparse ''http://['') \<and>
   length (extract_features no_host_extract ''http://['') = 20 \<and>
   drop 13 (extract_features no_host_extract ''http://['') = [0, 0, 0, 0, 0, 0, 0]"
  using parse_failure_zero_block [of no_host_extract "''http://[''"]
  by (simp add: urlparse_unbalanced)

end
